theory Spec2Isabelle
  imports Main "HOL-Library.Word"
begin

section \<open>Machine integers and packet headers\<close>

text \<open>
  Go's \<open>int64\<close>, \<open>int8\<close> and \<open>uint32\<close> are words of that width: \<open>+\<close> and \<open>-\<close> wrap
  around as Go's do. A signed comparison \<open>a < b\<close> of the source is \<open>a <s b\<close>, an unsigned
  one (on \<open>uint32\<close>) is the words' own \<open>a < b\<close>.
\<close>

type_synonym int64 = "64 word"
type_synonym int8 = "8 word"
type_synonym uint32 = "32 word"

text \<open>
  The packet types of package \<open>dccp\<close>. The receiver distinguishes \<open>Data\<close>, \<open>Ack\<close> and
  \<open>DataAck\<close> only. The types \<open>Close\<close> and \<open>Reset\<close> are written \<open>TypeClose\<close> and
  \<open>TypeReset\<close> here.
\<close>

datatype PacketType =
  Request | Response | Data | Ack | DataAck | CloseReq | TypeClose | TypeReset | Sync | SyncAck

text \<open>\<open>dccp.PreHeader\<close>, the view of an outgoing packet that \<open>OnWrite\<close> reads.\<close>

record PreHeader =
  ph_Type :: PacketType
  ph_SeqNo :: int64
  ph_AckNo :: int64
  ph_CCVal :: int8
  ph_Time :: int64

text \<open>
  \<open>dccp.FeedforwardHeader\<close>, the view of an incoming packet that \<open>OnRead\<close> reads. The
  options it carries are of the encoded option type \<open>'o\<close>.
\<close>

record 'o FeedforwardHeader =
  ff_Type :: PacketType
  ff_SeqNo :: int64
  ff_CCVal :: int8
  ff_Time :: int64
  ff_Options :: "'o list"

section \<open>The CCID3 receiver\<close>

text \<open>
  The receiver's fields, in the order of the source. The three embedded sub-modules are
  states of the types \<open>'rtt\<close>, \<open>'rc\<close> and \<open>'lt\<close>. The runtime handle, the logger and the
  mutex are not fields of the model: every method runs under the mutex from its first
  to its last statement, so a method is one atomic step, and what the method writes to
  the logger is returned as a list of events.
\<close>

record ('rtt, 'rc, 'lt) receiver =
  receiverRoundtripEstimator :: 'rtt
  receiverRateCalculator :: 'rc
  receiverLossTracker :: 'lt
  "open" :: bool
  lastWrite :: int64
  lastAck :: int64
  dataSinceAck :: bool
  lastLossEventRateInv :: uint32
  gsr :: int64
  gsrTimestamp :: int64
  lastCCVal :: int8
  latestCCVal :: int8

text \<open>
  The typed options handed to \<open>encodeOption\<close>. Each is a pointer in the source:
  \<open>makeElapsedTimeOption\<close> returns nil (\<open>None\<close>) or an \<open>ElapsedTimeOption\<close> holding a
  \<open>uint32\<close>; what the rate calculator's \<open>Flush\<close> and the loss tracker's
  \<open>LossIntervalsOption\<close> return are values of the types \<open>'rr\<close> and \<open>'li\<close>.
\<close>

datatype ('rr, 'li) UnencodedOption =
  ElapsedTimeOption "uint32 option" | ReceiveRateOption 'rr | LossIntervalsOption 'li

datatype EventLevel = EventInfo | EventWarn

type_synonym LogEvent = "EventLevel \<times> string"

datatype panic = Panic string

datatype signal = CongestionAck | ErrDrop

text \<open>
  The code the receiver calls and that lives elsewhere in the repository: the methods
  of the three sub-modules, the option codec and two conversions. They are parameters of
  the model, collected in one record, so that every theorem below holds for whatever
  these functions compute. The getters (\<open>RTT\<close>, \<open>String\<close>, \<open>LossEventRateInv\<close>,
  \<open>LossIntervalsOption\<close>) read a sub-module; \<open>Init\<close>, \<open>OnRead\<close> and \<open>Flush\<close>
  return its new state.
\<close>

record ('rtt, 'rc, 'lt, 'rr, 'li, 'o) collaborators =
  rtt_Init :: "'rtt \<Rightarrow> 'rtt"
  rtt_OnRead :: "'rtt \<Rightarrow> 'o FeedforwardHeader \<Rightarrow> 'rtt"
  rtt_RTT :: "'rtt \<Rightarrow> int64 \<Rightarrow> int64 \<times> bool"
  rtt_String :: "'rtt \<Rightarrow> string"
  rc_Init :: "'rc \<Rightarrow> 'rc"
  rc_OnRead :: "'rc \<Rightarrow> 'o FeedforwardHeader \<Rightarrow> 'rc"
  rc_Flush :: "'rc \<Rightarrow> int64 \<Rightarrow> int64 \<Rightarrow> 'rc \<times> 'rr"
  lt_Init :: "'lt \<Rightarrow> 'lt"
  lt_OnRead :: "'lt \<Rightarrow> 'o FeedforwardHeader \<Rightarrow> int64 \<Rightarrow> 'lt"
  lt_LossEventRateInv :: "'lt \<Rightarrow> uint32"
  lt_LossIntervalsOption :: "'lt \<Rightarrow> int64 \<Rightarrow> 'li"
  encodeOption :: "('rr, 'li) UnencodedOption \<Rightarrow> 'o option"
  TenMicroFromNano :: "int64 \<Rightarrow> uint32"
  Nstoa :: "int64 \<Rightarrow> string"

text \<open>
  Modelled from the spec: the constant \<open>UnknownLossEventRateInv\<close> is declared elsewhere in
  the repository; the spec gives it as the all-ones bit pattern of a \<open>uint32\<close>.
\<close>

definition UnknownLossEventRateInv :: uint32 where
  "UnknownLossEventRateInv = - 1"

text \<open>
  Modelled from the spec: \<open>max64\<close> is declared elsewhere in the repository; the spec
  writes the elapsed time as \<open>max(0, ph.Time - gsrTimestamp)\<close>, the greater of two
  \<open>int64\<close>.
\<close>

definition max64 :: "int64 \<Rightarrow> int64 \<Rightarrow> int64" where
  "max64 a b = (if a <s b then b else a)"

text \<open>
  Modelled from the spec: \<open>diffWindowCounter\<close> is declared elsewhere in the repository;
  the spec gives \<open>diffWindowCounter(a, b)\<close> as \<open>(a - b) mod 16\<close> with the result in
  \<open>[0,16)\<close>, the circular distance forward from \<open>b\<close> to \<open>a\<close>.
\<close>

definition diffWindowCounter :: "int8 \<Rightarrow> int8 \<Rightarrow> int" where
  "diffWindowCounter a b = (sint a - sint b) mod 16"

definition isDataType :: "PacketType \<Rightarrow> bool" where
  "isDataType t = (t = Data \<or> t = DataAck)"

definition isAckType :: "PacketType \<Rightarrow> bool" where
  "isAckType t = (t = Ack \<or> t = DataAck)"

text \<open>\<open>Open\<close>: panics on an open receiver, otherwise initialises every field.\<close>

definition Open ::
  "('rtt, 'rc, 'lt, 'rr, 'li, 'o) collaborators \<Rightarrow> ('rtt, 'rc, 'lt) receiver
    \<Rightarrow> panic + ('rtt, 'rc, 'lt) receiver" where
  "Open d r =
     (if open r then Inl (Panic ''opening an open ccid3 receiver'')
      else Inr (r\<lparr>receiverRoundtripEstimator := rtt_Init d (receiverRoundtripEstimator r),
                  receiverRateCalculator := rc_Init d (receiverRateCalculator r),
                  receiverLossTracker := lt_Init d (receiverLossTracker r),
                  open := True,
                  lastWrite := 0,
                  lastAck := 0,
                  dataSinceAck := False,
                  lastLossEventRateInv := UnknownLossEventRateInv,
                  gsr := 0,
                  gsrTimestamp := 0,
                  lastCCVal := 0,
                  latestCCVal := 0\<rparr>))"

text \<open>
  \<open>makeElapsedTimeOption\<close>: nil when no packet has been seen (\<open>gsr = 0\<close>), a panic when
  the acknowledgement number is not \<open>gsr\<close>, otherwise the elapsed time since the packet
  with the greatest sequence number arrived.
\<close>

definition makeElapsedTimeOption ::
  "('rtt, 'rc, 'lt, 'rr, 'li, 'o) collaborators \<Rightarrow> ('rtt, 'rc, 'lt) receiver
    \<Rightarrow> int64 \<Rightarrow> int64 \<Rightarrow> panic + uint32 option" where
  "makeElapsedTimeOption d r ackNo now =
     (if gsr r = 0 then Inr None
      else if ackNo \<noteq> gsr r then Inl (Panic ''ccid3 receiver: GSR != AckNo'')
      else Inr (Some (TenMicroFromNano d (max64 0 (now - gsrTimestamp r)))))"

text \<open>The warning \<open>OnWrite\<close> logs when an option's encoding is nil.\<close>

definition warnIfNil :: "'o option \<Rightarrow> string \<Rightarrow> LogEvent list" where
  "warnIfNil opt msg = (case opt of None \<Rightarrow> [(EventWarn, msg)] | Some _ \<Rightarrow> [])"

text \<open>
  \<open>OnWrite\<close> returns the new receiver, the option slice (the nil slice is \<open>[]\<close>, a nil
  entry is \<open>None\<close>) and the events logged, or the panic of \<open>makeElapsedTimeOption\<close>.
  As in the source, the round-trip estimate is read and \<open>lastWrite\<close> is set before
  \<open>open\<close> is tested.
\<close>

definition OnWrite ::
  "('rtt, 'rc, 'lt, 'rr, 'li, 'o) collaborators \<Rightarrow> ('rtt, 'rc, 'lt) receiver \<Rightarrow> PreHeader
    \<Rightarrow> panic + (('rtt, 'rc, 'lt) receiver \<times> 'o option list \<times> LogEvent list)" where
  "OnWrite d r0 ph =
     (let rtt = fst (rtt_RTT d (receiverRoundtripEstimator r0) (ph_Time ph));
          r1 = r0\<lparr>lastWrite := ph_Time ph\<rparr>
      in if \<not> open r1 then Inr (r1, [], [])
         else if isAckType (ph_Type ph) then
           (let r2 = r1\<lparr>lastAck := ph_Time ph,
                         dataSinceAck := False,
                         lastLossEventRateInv := lt_LossEventRateInv d (receiverLossTracker r1),
                         lastCCVal := latestCCVal r1\<rparr>
            in if 0 <s gsr r2 then
                 (case makeElapsedTimeOption d r2 (ph_AckNo ph) (ph_Time ph) of
                    Inl e \<Rightarrow> Inl e
                  | Inr et \<Rightarrow>
                      (let opt0 = encodeOption d (ElapsedTimeOption et);
                           fl = rc_Flush d (receiverRateCalculator r2) rtt (ph_Time ph);
                           r3 = r2\<lparr>receiverRateCalculator := fst fl\<rparr>;
                           opt1 = encodeOption d (ReceiveRateOption (snd fl));
                           opt2 = encodeOption d (LossIntervalsOption
                                    (lt_LossIntervalsOption d (receiverLossTracker r3) (ph_AckNo ph)))
                       in Inr (r3, [opt0, opt1, opt2],
                               warnIfNil opt0 ''ElapsedTime option encoding == nil'' @
                               warnIfNil opt1 ''ReceiveRate option encoding == nil'' @
                               warnIfNil opt2 ''LossIntervals option encoding == nil'' @
                               [(EventInfo, ''Placed 3 receiver opts'')])))
               else Inr (r2, [], [(EventInfo, ''OnWrite, not seen packs before'')]))
         else Inr (r1, [], []))"

text \<open>
  \<open>OnRead\<close> returns the new receiver, the signal (\<open>None\<close> is nil) and the events logged.
\<close>

definition OnRead ::
  "('rtt, 'rc, 'lt, 'rr, 'li, 'o) collaborators \<Rightarrow> ('rtt, 'rc, 'lt) receiver
    \<Rightarrow> 'o FeedforwardHeader
    \<Rightarrow> ('rtt, 'rc, 'lt) receiver \<times> signal option \<times> LogEvent list" where
  "OnRead d r0 ff =
     (if \<not> open r0 then (r0, None, [])
      else
        (let r1 = (if gsr r0 <s ff_SeqNo ff
                   then r0\<lparr>gsr := ff_SeqNo ff, gsrTimestamp := ff_Time ff\<rparr> else r0);
             r2 = (if isDataType (ff_Type ff)
                   then r1\<lparr>dataSinceAck := True, latestCCVal := ff_CCVal ff\<rparr> else r1);
             r3 = r2\<lparr>receiverRoundtripEstimator :=
                        rtt_OnRead d (receiverRoundtripEstimator r2) ff\<rparr>;
             re = rtt_RTT d (receiverRoundtripEstimator r3) (ff_Time ff);
             lg = [(EventInfo, rtt_String d (receiverRoundtripEstimator r3)),
                   (EventInfo, ''RTT='' @ Nstoa d (fst re) @ '' EST='' @
                               (if snd re then ''true'' else ''false''))];
             r4 = r3\<lparr>receiverRateCalculator := rc_OnRead d (receiverRateCalculator r3) ff\<rparr>;
             r5 = r4\<lparr>receiverLossTracker :=
                        lt_OnRead d (receiverLossTracker r4) ff (fst re)\<rparr>
         in if lt_LossEventRateInv d (receiverLossTracker r5) < lastLossEventRateInv r5
            then (r5, Some CongestionAck, lg)
            else if isDataType (ff_Type ff)
                    \<and> 4 \<le> diffWindowCounter (ff_CCVal ff) (lastCCVal r5)
            then (r5, Some CongestionAck, lg)
            else (r5, None, lg)))"

text \<open>\<open>OnIdle\<close> changes no field; it returns the signal.\<close>

definition OnIdle ::
  "('rtt, 'rc, 'lt, 'rr, 'li, 'o) collaborators \<Rightarrow> ('rtt, 'rc, 'lt) receiver \<Rightarrow> int64
    \<Rightarrow> signal option" where
  "OnIdle d r now =
     (if \<not> open r then None
      else
        (let rtt = fst (rtt_RTT d (receiverRoundtripEstimator r) now)
         in if dataSinceAck r \<and> rtt <s now - lastWrite r then Some CongestionAck
            else None))"

definition Close :: "('rtt, 'rc, 'lt) receiver \<Rightarrow> ('rtt, 'rc, 'lt) receiver" where
  "Close r = r\<lparr>open := False\<rparr>"

text \<open>
  Stand-ins for the collaborators, used to run the receiver on concrete inputs: a
  round-trip estimator that holds its estimate, a rate calculator that counts packets and
  reports the count on \<open>Flush\<close> (a nil pointer when it counted none), a loss tracker
  whose state is the list of the inverse loss-event rates it reports from now on (the
  head is the current one, \<open>OnRead\<close> moves to the next, the last one stays; the empty
  list reports the unknown sentinel), and a codec that encodes an option as itself and a
  nil pointer as nil.
\<close>

type_synonym sample_option = "(uint32 option, uint32 list) UnencodedOption"

definition sample_encode :: "sample_option \<Rightarrow> sample_option option" where
  "sample_encode u =
     (case u of
        ElapsedTimeOption None \<Rightarrow> None
      | ReceiveRateOption None \<Rightarrow> None
      | _ \<Rightarrow> Some u)"

definition sample_collaborators ::
  "(int64, nat, uint32 list, uint32 option, uint32 list, sample_option) collaborators" where
  "sample_collaborators =
     \<lparr>rtt_Init = (\<lambda>t. 0),
      rtt_OnRead = (\<lambda>t ff. t),
      rtt_RTT = (\<lambda>t now. (t, True)),
      rtt_String = (\<lambda>t. ''rtt''),
      rc_Init = (\<lambda>c. 0),
      rc_OnRead = (\<lambda>c ff. Suc c),
      rc_Flush = (\<lambda>c rtt now. (0, if c = 0 then None else Some (of_nat c))),
      lt_Init = (\<lambda>l. []),
      lt_OnRead = (\<lambda>l ff rtt. if 1 < length l then tl l else l),
      lt_LossEventRateInv = (\<lambda>l. case l of [] \<Rightarrow> UnknownLossEventRateInv | x # _ \<Rightarrow> x),
      lt_LossIntervalsOption = (\<lambda>l ackNo. l),
      encodeOption = sample_encode,
      TenMicroFromNano = (\<lambda>ns. ucast (ns div 10000)),
      Nstoa = (\<lambda>ns. ''ns'')\<rparr>"

text \<open>A receiver over the stand-ins, every field given.\<close>

definition sample_receiver ::
  "bool \<Rightarrow> int64 \<Rightarrow> bool \<Rightarrow> uint32 \<Rightarrow> int64 \<Rightarrow> int8 \<Rightarrow> nat \<Rightarrow> uint32 list
    \<Rightarrow> (int64, nat, uint32 list) receiver" where
  "sample_receiver opn lw dsa llr g lcc cnt rates =
     \<lparr>receiverRoundtripEstimator = 50,
      receiverRateCalculator = cnt,
      receiverLossTracker = rates,
      open = opn,
      lastWrite = lw,
      lastAck = 0,
      dataSinceAck = dsa,
      lastLossEventRateInv = llr,
      gsr = g,
      gsrTimestamp = 1000,
      lastCCVal = lcc,
      latestCCVal = lcc\<rparr>"

definition sample_ph :: "PacketType \<Rightarrow> int64 \<Rightarrow> int64 \<Rightarrow> PreHeader" where
  "sample_ph t ackNo now =
     \<lparr>ph_Type = t, ph_SeqNo = 1, ph_AckNo = ackNo, ph_CCVal = 0, ph_Time = now\<rparr>"

definition sample_ff ::
  "PacketType \<Rightarrow> int64 \<Rightarrow> int8 \<Rightarrow> int64 \<Rightarrow> sample_option FeedforwardHeader" where
  "sample_ff t seqNo ccval now =
     \<lparr>ff_Type = t, ff_SeqNo = seqNo, ff_CCVal = ccval, ff_Time = now, ff_Options = []\<rparr>"

section \<open>The connection's teardown\<close>

text \<open>
  The states of the socket. \<open>abort\<close> and \<open>kill\<close> use \<open>CLOSED\<close> only.
\<close>

datatype State =
  LISTEN | REQUEST | RESPOND | PARTOPEN | OPEN | CLOSEREQ | CLOSING | TIMEWAIT | CLOSED

text \<open>
  A Go channel: what was sent and not yet received, and whether the channel is closed.
  Closing a closed channel panics, and so does a send on a closed channel.
\<close>

record 'a chan =
  queue :: "'a list"
  closed :: bool

definition close_chan :: "'a chan \<Rightarrow> panic + 'a chan" where
  "close_chan ch =
     (if closed ch then Inl (Panic ''close of closed channel'')
      else Inr (ch\<lparr>closed := True\<rparr>))"

definition send_chan :: "'a \<Rightarrow> 'a chan \<Rightarrow> panic + 'a chan" where
  "send_chan x ch =
     (if closed ch then Inl (Panic ''send on closed channel'')
      else Inr (ch\<lparr>queue := queue ch @ [x]\<rparr>))"

text \<open>
  Modelled from the spec: the packet \<open>generateReset\<close> builds and the constant
  \<open>ResetAborted\<close> are declared elsewhere in the repository; the spec gives a Reset
  packet carrying a reset code, and code 2 for "Aborted".
\<close>

datatype writeHeader = WriteHeader PacketType nat

definition ResetAborted :: nat where
  "ResetAborted = 2"

definition generateReset :: "nat \<Rightarrow> writeHeader" where
  "generateReset resetCode = WriteHeader TypeReset resetCode"

text \<open>
  What a teardown does, step by step, is kept in the connection as a history of events,
  the newest last.
\<close>

datatype ChanName = ReadApp | WriteData | WriteNonData

datatype Event =
  EvLock | EvSetState State | EvUnlock | EvInject writeHeader | EvClose ChanName

record Conn =
  locked :: bool
  socket :: State
  readApp :: "8 word list chan"
  writeData :: "8 word list chan"
  writeNonData :: "writeHeader chan"
  history :: "Event list"

definition Lock :: "Conn \<Rightarrow> Conn" where
  "Lock c = c\<lparr>locked := True, history := history c @ [EvLock]\<rparr>"

definition Unlock :: "Conn \<Rightarrow> Conn" where
  "Unlock c = c\<lparr>locked := False, history := history c @ [EvUnlock]\<rparr>"

definition SetState :: "State \<Rightarrow> Conn \<Rightarrow> Conn" where
  "SetState s c = c\<lparr>socket := s, history := history c @ [EvSetState s]\<rparr>"

text \<open>The rest of a method after a step that may panic.\<close>

definition andThen :: "panic + 'a \<Rightarrow> ('a \<Rightarrow> panic + 'b) \<Rightarrow> panic + 'b" where
  "andThen m f = (case m of Inl e \<Rightarrow> Inl e | Inr x \<Rightarrow> f x)"

text \<open>
  Modelled from the spec: \<open>inject\<close> is declared elsewhere in the repository; the spec
  gives it as the send of a packet into \<open>writeNonData\<close>, the channel the write loop
  drains.
\<close>

definition inject :: "writeHeader \<Rightarrow> Conn \<Rightarrow> panic + Conn" where
  "inject h c =
     andThen (send_chan h (writeNonData c))
       (\<lambda>ch. Inr (c\<lparr>writeNonData := ch, history := history c @ [EvInject h]\<rparr>))"

definition teardownUser :: "Conn \<Rightarrow> panic + Conn" where
  "teardownUser c =
     andThen (close_chan (readApp c))
       (\<lambda>ra. let c1 = c\<lparr>readApp := ra, history := history c @ [EvClose ReadApp]\<rparr>
             in andThen (close_chan (writeData c1))
                  (\<lambda>wd. Inr (c1\<lparr>writeData := wd,
                                   history := history c1 @ [EvClose WriteData]\<rparr>)))"

definition teardownWriteLoop :: "Conn \<Rightarrow> panic + Conn" where
  "teardownWriteLoop c =
     andThen (close_chan (writeNonData c))
       (\<lambda>wn. Inr (c\<lparr>writeNonData := wn, history := history c @ [EvClose WriteNonData]\<rparr>))"

definition abort :: "Conn \<Rightarrow> panic + Conn" where
  "abort c =
     (let c1 = Unlock (SetState CLOSED (Lock c))
      in andThen (inject (generateReset ResetAborted) c1)
           (\<lambda>c2. andThen (teardownUser c2) teardownWriteLoop))"

definition kill :: "Conn \<Rightarrow> panic + Conn" where
  "kill c =
     (let c1 = Unlock (SetState CLOSED (Lock c))
      in andThen (teardownUser c1) teardownWriteLoop)"

text \<open>A connection in state \<open>OPEN\<close> with its three channels open and empty.\<close>

definition fresh_Conn :: Conn where
  "fresh_Conn =
     \<lparr>locked = False, socket = OPEN,
      readApp = \<lparr>queue = [], closed = False\<rparr>,
      writeData = \<lparr>queue = [], closed = False\<rparr>,
      writeNonData = \<lparr>queue = [], closed = False\<rparr>,
      history = []\<rparr>"

section \<open>Helper facts\<close>

lemmas sample_defs =
  sample_collaborators_def sample_receiver_def sample_ph_def sample_ff_def sample_encode_def

lemmas conn_defs =
  abort_def kill_def teardownUser_def teardownWriteLoop_def inject_def Lock_def Unlock_def
  SetState_def andThen_def send_chan_def close_chan_def generateReset_def ResetAborted_def

lemma OnWrite_not_open:
  "\<not> open r \<Longrightarrow> OnWrite d r ph = Inr (r\<lparr>lastWrite := ph_Time ph\<rparr>, [], [])"
  by (simp add: OnWrite_def Let_def)

lemma OnWrite_not_seen:
  assumes "open r" and "isAckType (ph_Type ph)" and "\<not> 0 <s gsr r"
  shows "OnWrite d r ph =
    Inr (r\<lparr>lastWrite := ph_Time ph, lastAck := ph_Time ph, dataSinceAck := False,
            lastLossEventRateInv := lt_LossEventRateInv d (receiverLossTracker r),
            lastCCVal := latestCCVal r\<rparr>,
         [], [(EventInfo, ''OnWrite, not seen packs before'')])"
  using assms by (simp add: OnWrite_def Let_def)

lemma OnWrite_AckNo_mismatch:
  assumes "open r" and "isAckType (ph_Type ph)" and "0 <s gsr r" and "ph_AckNo ph \<noteq> gsr r"
  shows "OnWrite d r ph = Inl (Panic ''ccid3 receiver: GSR != AckNo'')"
  using assms by (auto simp add: OnWrite_def Let_def makeElapsedTimeOption_def)

lemma OnWrite_feedback:
  assumes "open r" and "isAckType (ph_Type ph)" and "0 <s gsr r" and "ph_AckNo ph = gsr r"
  shows "OnWrite d r ph =
    (let rtt = fst (rtt_RTT d (receiverRoundtripEstimator r) (ph_Time ph));
         fl = rc_Flush d (receiverRateCalculator r) rtt (ph_Time ph);
         opt0 = encodeOption d (ElapsedTimeOption
                  (Some (TenMicroFromNano d (max64 0 (ph_Time ph - gsrTimestamp r)))));
         opt1 = encodeOption d (ReceiveRateOption (snd fl));
         opt2 = encodeOption d (LossIntervalsOption
                  (lt_LossIntervalsOption d (receiverLossTracker r) (ph_AckNo ph)))
     in Inr (r\<lparr>lastWrite := ph_Time ph, lastAck := ph_Time ph, dataSinceAck := False,
                lastLossEventRateInv := lt_LossEventRateInv d (receiverLossTracker r),
                lastCCVal := latestCCVal r, receiverRateCalculator := fst fl\<rparr>,
             [opt0, opt1, opt2],
             warnIfNil opt0 ''ElapsedTime option encoding == nil'' @
             warnIfNil opt1 ''ReceiveRate option encoding == nil'' @
             warnIfNil opt2 ''LossIntervals option encoding == nil'' @
             [(EventInfo, ''Placed 3 receiver opts'')]))"
proof -
  from assms(3) have "gsr r \<noteq> 0" by auto
  with assms show ?thesis
    by (simp add: OnWrite_def Let_def makeElapsedTimeOption_def)
qed

lemma OnRead_not_open: "\<not> open r \<Longrightarrow> OnRead d r ff = (r, None, [])"
  by (simp add: OnRead_def)

text \<open>What \<open>OnRead\<close> leaves as it finds it on an open receiver.\<close>

lemma OnRead_frame:
  "open (fst (OnRead d r ff)) = open r"
  "lastCCVal (fst (OnRead d r ff)) = lastCCVal r"
  "lastLossEventRateInv (fst (OnRead d r ff)) = lastLossEventRateInv r"
  "lastWrite (fst (OnRead d r ff)) = lastWrite r"
  "lastAck (fst (OnRead d r ff)) = lastAck r"
  by (simp_all add: OnRead_def Let_def)

lemma OnRead_gsr:
  "open r \<Longrightarrow> gsr (fst (OnRead d r ff)) = (if gsr r <s ff_SeqNo ff then ff_SeqNo ff else gsr r)"
  "open r \<Longrightarrow> gsrTimestamp (fst (OnRead d r ff)) =
     (if gsr r <s ff_SeqNo ff then ff_Time ff else gsrTimestamp r)"
  by (simp_all add: OnRead_def Let_def)

lemma OnRead_signal:
  assumes "open r"
  shows "fst (snd (OnRead d r ff)) =
    (if lt_LossEventRateInv d (receiverLossTracker (fst (OnRead d r ff))) < lastLossEventRateInv r
        \<or> isDataType (ff_Type ff) \<and> 4 \<le> diffWindowCounter (ff_CCVal ff) (lastCCVal r)
     then Some CongestionAck else None)"
  using assms by (simp add: OnRead_def Let_def)

text \<open>
  Where the difference of two timestamps does not overflow an \<open>int64\<close>, the wrapped
  subtraction of the source is the difference of the numbers.
\<close>

lemma sint_minus_no_overflow:
  fixes a b :: int64
  assumes "- (2 ^ 63) \<le> sint a - sint b" and "sint a - sint b < 2 ^ 63"
  shows "sint (a - b) = sint a - sint b"
  using assms by (simp add: sint_word_ariths signed_take_bit_int_eq_self)

section \<open>The receiver's feedback options\<close>

text \<open>
  C1, as amended. On an open receiver, \<open>OnWrite\<close> with an Ack or a DataAck whose
  acknowledgement number is \<open>gsr\<close>, with \<open>gsr > 0\<close>, returns a slice of exactly three
  entries, in this order: the encoding of the ElapsedTime option, of the ReceiveRate
  option that the rate calculator's \<open>Flush\<close> returns, and of the loss tracker's
  LossIntervals option. With \<open>gsr > 0\<close> and another acknowledgement number the call
  panics. With \<open>gsr = 0\<close> it returns no options.
\<close>

theorem OnWrite_three_options:
  assumes "open r" and "isAckType (ph_Type ph)"
  shows "(0 <s gsr r \<and> ph_AckNo ph = gsr r \<longrightarrow>
            (\<exists>r' lg. OnWrite d r ph =
               Inr (r',
                    [encodeOption d (ElapsedTimeOption
                       (Some (TenMicroFromNano d (max64 0 (ph_Time ph - gsrTimestamp r))))),
                     encodeOption d (ReceiveRateOption
                       (snd (rc_Flush d (receiverRateCalculator r)
                          (fst (rtt_RTT d (receiverRoundtripEstimator r) (ph_Time ph)))
                          (ph_Time ph)))),
                     encodeOption d (LossIntervalsOption
                       (lt_LossIntervalsOption d (receiverLossTracker r) (ph_AckNo ph)))],
                    lg)))
       \<and> (0 <s gsr r \<and> ph_AckNo ph \<noteq> gsr r \<longrightarrow>
            OnWrite d r ph = Inl (Panic ''ccid3 receiver: GSR != AckNo''))
       \<and> (gsr r = 0 \<longrightarrow> (\<exists>r' lg. OnWrite d r ph = Inr (r', [], lg)))"
proof (intro conjI impI)
  assume "0 <s gsr r \<and> ph_AckNo ph = gsr r"
  with assms show "\<exists>r' lg. OnWrite d r ph =
      Inr (r',
           [encodeOption d (ElapsedTimeOption
              (Some (TenMicroFromNano d (max64 0 (ph_Time ph - gsrTimestamp r))))),
            encodeOption d (ReceiveRateOption
              (snd (rc_Flush d (receiverRateCalculator r)
                 (fst (rtt_RTT d (receiverRoundtripEstimator r) (ph_Time ph)))
                 (ph_Time ph)))),
            encodeOption d (LossIntervalsOption
              (lt_LossIntervalsOption d (receiverLossTracker r) (ph_AckNo ph)))],
           lg)"
    by (simp add: OnWrite_feedback Let_def)
next
  assume "0 <s gsr r \<and> ph_AckNo ph \<noteq> gsr r"
  with assms show "OnWrite d r ph = Inl (Panic ''ccid3 receiver: GSR != AckNo'')"
    by (simp add: OnWrite_AckNo_mismatch)
next
  assume "gsr r = 0"
  then have "\<not> 0 <s gsr r" by simp
  with assms show "\<exists>r' lg. OnWrite d r ph = Inr (r', [], lg)"
    by (simp add: OnWrite_not_seen)
qed

theorem OnWrite_three_options_witness:
  "open (sample_receiver True 0 True 7 5 0 3 [10, 8])
   \<and> isAckType (ph_Type (sample_ph Ack 5 3000))
   \<and> 0 <s gsr (sample_receiver True 0 True 7 5 0 3 [10, 8])
   \<and> ph_AckNo (sample_ph Ack 5 3000) = gsr (sample_receiver True 0 True 7 5 0 3 [10, 8])
   \<and> (\<exists>r' lg. OnWrite sample_collaborators (sample_receiver True 0 True 7 5 0 3 [10, 8])
                 (sample_ph Ack 5 3000) =
               Inr (r', [Some (ElapsedTimeOption (Some 0)), Some (ReceiveRateOption (Some 3)),
                         Some (LossIntervalsOption [10, 8])], lg))
   \<and> gsr (sample_receiver True 0 True 7 0 0 3 [10, 8]) = 0
   \<and> (\<exists>r' lg. OnWrite sample_collaborators (sample_receiver True 0 True 7 0 0 3 [10, 8])
                 (sample_ph DataAck 0 3000) = Inr (r', [], lg))"
  using OnWrite_three_options [of "sample_receiver True 0 True 7 5 0 3 [10, 8]"
          "sample_ph Ack 5 3000" sample_collaborators]
        OnWrite_three_options [of "sample_receiver True 0 True 7 0 0 3 [10, 8]"
          "sample_ph DataAck 0 3000" sample_collaborators]
  by (simp add: sample_defs isAckType_def word_sless_alt max64_def)

text \<open>
  The claim C1 as it was stated fails where the acknowledgement number is not \<open>gsr\<close>:
  with \<open>gsr = 5\<close> and \<open>AckNo = 4\<close> the call panics and returns no options.
\<close>

theorem OnWrite_three_options_counterexample:
  "open (sample_receiver True 0 True 7 5 0 3 [10, 8])
   \<and> ph_Type (sample_ph Ack 4 3000) = Ack
   \<and> 0 <s gsr (sample_receiver True 0 True 7 5 0 3 [10, 8])
   \<and> OnWrite sample_collaborators (sample_receiver True 0 True 7 5 0 3 [10, 8])
        (sample_ph Ack 4 3000) = Inl (Panic ''ccid3 receiver: GSR != AckNo'')"
  by (simp add: sample_defs OnWrite_def isAckType_def makeElapsedTimeOption_def word_sless_alt)


text \<open>
  C2, as amended. On an open receiver with \<open>gsr = 0\<close>, \<open>OnWrite\<close> with an Ack or a
  DataAck returns no option at all: neither ElapsedTime nor ReceiveRate nor
  LossIntervals. It logs one Info event and no warning, and the rate calculator is not
  flushed. \<open>makeElapsedTimeOption\<close> would return nil at \<open>gsr = 0\<close>, but the test
  \<open>gsr > 0\<close> of \<open>OnWrite\<close> keeps the call from it.
\<close>

theorem OnWrite_gsr_zero_no_options:
  assumes "open r" and "isAckType (ph_Type ph)" and "gsr r = 0"
  shows "OnWrite d r ph =
           Inr (r\<lparr>lastWrite := ph_Time ph, lastAck := ph_Time ph, dataSinceAck := False,
                   lastLossEventRateInv := lt_LossEventRateInv d (receiverLossTracker r),
                   lastCCVal := latestCCVal r\<rparr>,
                [], [(EventInfo, ''OnWrite, not seen packs before'')])
       \<and> makeElapsedTimeOption d r (ph_AckNo ph) (ph_Time ph) = Inr None"
proof
  from assms(3) have "\<not> 0 <s gsr r" by simp
  with assms(1,2) show "OnWrite d r ph =
      Inr (r\<lparr>lastWrite := ph_Time ph, lastAck := ph_Time ph, dataSinceAck := False,
              lastLossEventRateInv := lt_LossEventRateInv d (receiverLossTracker r),
              lastCCVal := latestCCVal r\<rparr>,
           [], [(EventInfo, ''OnWrite, not seen packs before'')])"
    by (rule OnWrite_not_seen)
next
  from assms(3) show "makeElapsedTimeOption d r (ph_AckNo ph) (ph_Time ph) = Inr None"
    by (simp add: makeElapsedTimeOption_def)
qed

theorem OnWrite_gsr_zero_no_options_witness:
  "open (sample_receiver True 0 True 7 0 0 3 [10, 8])
   \<and> isAckType (ph_Type (sample_ph Ack 0 3000))
   \<and> gsr (sample_receiver True 0 True 7 0 0 3 [10, 8]) = 0
   \<and> OnWrite sample_collaborators (sample_receiver True 0 True 7 0 0 3 [10, 8])
        (sample_ph Ack 0 3000) =
      Inr ((sample_receiver True 0 True 7 0 0 3 [10, 8])
             \<lparr>lastWrite := 3000, lastAck := 3000, dataSinceAck := False,
              lastLossEventRateInv := 10\<rparr>,
           [], [(EventInfo, ''OnWrite, not seen packs before'')])"
  using OnWrite_gsr_zero_no_options [of "sample_receiver True 0 True 7 0 0 3 [10, 8]"
          "sample_ph Ack 0 3000" sample_collaborators]
  by (simp add: sample_defs isAckType_def)

text \<open>
  The claim C2 as it was stated fails: with \<open>gsr = 0\<close> the slice returned is empty, so
  the ReceiveRate and LossIntervals options are not emitted, although the rate calculator
  has counted three packets and the codec would encode both options.
\<close>

theorem OnWrite_gsr_zero_counterexample:
  "gsr (sample_receiver True 0 True 7 0 0 3 [10, 8]) = 0
   \<and> OnWrite sample_collaborators (sample_receiver True 0 True 7 0 0 3 [10, 8])
        (sample_ph Ack 0 3000) =
      Inr (sample_receiver True 3000 False 10 0 0 3 [10, 8]\<lparr>lastAck := 3000\<rparr>,
           [], [(EventInfo, ''OnWrite, not seen packs before'')])
   \<and> encodeOption sample_collaborators
        (ReceiveRateOption (snd (rc_Flush sample_collaborators 3 50 3000))) \<noteq> None
   \<and> encodeOption sample_collaborators
        (LossIntervalsOption (lt_LossIntervalsOption sample_collaborators [10, 8] 0)) \<noteq> None"
  by (simp add: sample_defs OnWrite_def isAckType_def)

section \<open>When the receiver asks for an Ack\<close>

text \<open>
  C3, as amended. On an open receiver, \<open>OnRead\<close> returns \<open>CongestionAck\<close> whenever the
  loss tracker's \<open>LossEventRateInv()\<close> after the call is strictly less than
  \<open>lastLossEventRateInv\<close>, the value recorded by the last Ack or DataAck written (the
  unknown sentinel after \<open>Open\<close>); so it does whenever \<open>LossEventRateInv()\<close> strictly
  decreases across the call from a value that is not greater than
  \<open>lastLossEventRateInv\<close>.
\<close>

theorem OnRead_loss_rate_feedback:
  assumes "open r"
  shows "(lt_LossEventRateInv d (receiverLossTracker (fst (OnRead d r ff)))
            < lastLossEventRateInv r
          \<longrightarrow> fst (snd (OnRead d r ff)) = Some CongestionAck)
       \<and> (lt_LossEventRateInv d (receiverLossTracker (fst (OnRead d r ff)))
            < lt_LossEventRateInv d (receiverLossTracker r)
          \<and> lt_LossEventRateInv d (receiverLossTracker r) \<le> lastLossEventRateInv r
          \<longrightarrow> fst (snd (OnRead d r ff)) = Some CongestionAck)"
  using assms by (auto simp add: OnRead_signal)

theorem OnRead_loss_rate_feedback_witness:
  "open (sample_receiver True 0 True 10 5 0 3 [10, 8])
   \<and> lt_LossEventRateInv sample_collaborators
        (receiverLossTracker (fst (OnRead sample_collaborators
           (sample_receiver True 0 True 10 5 0 3 [10, 8]) (sample_ff Ack 6 0 3000))))
       < lt_LossEventRateInv sample_collaborators
           (receiverLossTracker (sample_receiver True 0 True 10 5 0 3 [10, 8]))
   \<and> lt_LossEventRateInv sample_collaborators
        (receiverLossTracker (sample_receiver True 0 True 10 5 0 3 [10, 8]))
       \<le> lastLossEventRateInv (sample_receiver True 0 True 10 5 0 3 [10, 8])
   \<and> fst (snd (OnRead sample_collaborators (sample_receiver True 0 True 10 5 0 3 [10, 8])
                 (sample_ff Ack 6 0 3000))) = Some CongestionAck"
  using OnRead_loss_rate_feedback [of "sample_receiver True 0 True 10 5 0 3 [10, 8]"
          sample_collaborators "sample_ff Ack 6 0 3000"]
  by (simp add: sample_defs OnRead_def isDataType_def word_sless_alt)

text \<open>
  The claim C3 as it was stated fails: the last Ack recorded the value 5, the loss
  tracker reports 10 before the call and 8 after it, a strict decrease, and \<open>OnRead\<close>
  returns nil, because 8 is not less than 5.
\<close>

theorem OnRead_loss_rate_feedback_counterexample:
  "open (sample_receiver True 0 True 5 5 0 3 [10, 8])
   \<and> lt_LossEventRateInv sample_collaborators
        (receiverLossTracker (sample_receiver True 0 True 5 5 0 3 [10, 8])) = 10
   \<and> lt_LossEventRateInv sample_collaborators
        (receiverLossTracker (fst (OnRead sample_collaborators
           (sample_receiver True 0 True 5 5 0 3 [10, 8]) (sample_ff Ack 6 0 3000)))) = 8
   \<and> fst (snd (OnRead sample_collaborators (sample_receiver True 0 True 5 5 0 3 [10, 8])
                 (sample_ff Ack 6 0 3000))) = None"
  by (simp add: sample_defs OnRead_def isDataType_def word_sless_alt)

text \<open>
  C4, as amended. On an open receiver, \<open>OnRead\<close> returns the signal exactly when
  Feedback Condition II fires (\<open>LossEventRateInv()\<close> after the call is less than
  \<open>lastLossEventRateInv\<close>) or the packet is a Data or DataAck with
  \<open>(ccval - lastCCVal) mod 16 \<ge> 4\<close>. So on a call where Condition II does not fire,
  the signal is returned exactly when \<open>(ccval - lastCCVal) mod 16 \<ge> 4\<close> on a Data or
  DataAck packet. \<open>OnRead\<close> leaves \<open>open\<close> and \<open>lastCCVal\<close> as they are, so this holds
  along any sequence of packets read.
\<close>

theorem OnRead_window_counter_feedback:
  assumes "open r"
  shows "(fst (snd (OnRead d r ff)) = Some CongestionAck) =
           (lt_LossEventRateInv d (receiverLossTracker (fst (OnRead d r ff)))
              < lastLossEventRateInv r
            \<or> isDataType (ff_Type ff)
              \<and> 4 \<le> (sint (ff_CCVal ff) - sint (lastCCVal r)) mod 16)
       \<and> (\<not> lt_LossEventRateInv d (receiverLossTracker (fst (OnRead d r ff)))
              < lastLossEventRateInv r
          \<longrightarrow> (fst (snd (OnRead d r ff)) = Some CongestionAck) =
                (isDataType (ff_Type ff)
                 \<and> 4 \<le> (sint (ff_CCVal ff) - sint (lastCCVal r)) mod 16))
       \<and> (fst (snd (OnRead d r ff)) = Some CongestionAck \<or> fst (snd (OnRead d r ff)) = None)
       \<and> open (fst (OnRead d r ff))
       \<and> lastCCVal (fst (OnRead d r ff)) = lastCCVal r"
  using assms by (simp add: OnRead_signal OnRead_frame diffWindowCounter_def)

theorem OnRead_window_counter_feedback_witness:
  "open (sample_receiver True 0 True 7 5 14 3 [7])
   \<and> \<not> lt_LossEventRateInv sample_collaborators
          (receiverLossTracker (fst (OnRead sample_collaborators
             (sample_receiver True 0 True 7 5 14 3 [7]) (sample_ff Data 6 2 3000))))
        < lastLossEventRateInv (sample_receiver True 0 True 7 5 14 3 [7])
   \<and> fst (snd (OnRead sample_collaborators (sample_receiver True 0 True 7 5 14 3 [7])
                 (sample_ff Data 6 2 3000))) = Some CongestionAck
   \<and> fst (snd (OnRead sample_collaborators (sample_receiver True 0 True 7 5 14 3 [7])
                 (sample_ff Data 6 1 3000))) = None
   \<and> fst (snd (OnRead sample_collaborators (sample_receiver True 0 True 7 5 14 3 [7])
                 (sample_ff Ack 6 2 3000))) = None"
  using OnRead_window_counter_feedback [of "sample_receiver True 0 True 7 5 14 3 [7]"
          sample_collaborators "sample_ff Data 6 2 3000"]
        OnRead_window_counter_feedback [of "sample_receiver True 0 True 7 5 14 3 [7]"
          sample_collaborators "sample_ff Data 6 1 3000"]
        OnRead_window_counter_feedback [of "sample_receiver True 0 True 7 5 14 3 [7]"
          sample_collaborators "sample_ff Ack 6 2 3000"]
  by (simp add: sample_defs OnRead_def isDataType_def word_sless_alt diffWindowCounter_def)

text \<open>
  The claim C4 as it was stated fails: the signal is also returned in another case. On
  an Ack packet, whose window counter equals \<open>lastCCVal\<close>, \<open>OnRead\<close> returns
  \<open>CongestionAck\<close> when the loss tracker reports 100 and \<open>lastLossEventRateInv\<close> is
  still the unknown sentinel.
\<close>

theorem OnRead_window_counter_feedback_counterexample:
  "open (sample_receiver True 0 True UnknownLossEventRateInv 5 0 3 [100])
   \<and> fst (snd (OnRead sample_collaborators
                 (sample_receiver True 0 True UnknownLossEventRateInv 5 0 3 [100])
                 (sample_ff Ack 6 0 3000))) = Some CongestionAck
   \<and> \<not> isDataType (ff_Type (sample_ff Ack 6 0 3000 :: sample_option FeedforwardHeader))
   \<and> (sint (ff_CCVal (sample_ff Ack 6 0 3000 :: sample_option FeedforwardHeader))
        - sint (lastCCVal (sample_receiver True 0 True UnknownLossEventRateInv 5 0 3 [100])))
       mod 16 < 4"
  by (simp add: sample_defs OnRead_def isDataType_def word_sless_alt
      UnknownLossEventRateInv_def)

text \<open>
  C5. On an open receiver, \<open>OnIdle(now)\<close> returns \<open>CongestionAck\<close> if \<open>dataSinceAck\<close>
  is true and \<open>now - lastWrite > rtt\<close>, where \<open>rtt\<close> is the round-trip estimate at time
  \<open>now\<close>; if either of the two is false it returns nil. The subtraction is that of the
  source, on \<open>int64\<close>; where the difference of the two timestamps does not overflow, the
  test is the comparison of the numbers.
\<close>

theorem OnIdle_feedback:
  assumes "open r"
  shows "(dataSinceAck r
            \<and> fst (rtt_RTT d (receiverRoundtripEstimator r) now) <s now - lastWrite r
          \<longrightarrow> OnIdle d r now = Some CongestionAck)
       \<and> (\<not> dataSinceAck r \<longrightarrow> OnIdle d r now = None)
       \<and> (\<not> fst (rtt_RTT d (receiverRoundtripEstimator r) now) <s now - lastWrite r
          \<longrightarrow> OnIdle d r now = None)
       \<and> (- (2 ^ 63) \<le> sint now - sint (lastWrite r) \<and> sint now - sint (lastWrite r) < 2 ^ 63
          \<longrightarrow> (fst (rtt_RTT d (receiverRoundtripEstimator r) now) <s now - lastWrite r)
                = (sint (fst (rtt_RTT d (receiverRoundtripEstimator r) now))
                     < sint now - sint (lastWrite r)))"
  using assms by (simp add: OnIdle_def Let_def word_sless_alt sint_minus_no_overflow)

theorem OnIdle_feedback_witness:
  "open (sample_receiver True 1000 True 7 5 0 3 [7])
   \<and> dataSinceAck (sample_receiver True 1000 True 7 5 0 3 [7])
   \<and> fst (rtt_RTT sample_collaborators
            (receiverRoundtripEstimator (sample_receiver True 1000 True 7 5 0 3 [7])) 1051)
       <s 1051 - lastWrite (sample_receiver True 1000 True 7 5 0 3 [7])
   \<and> OnIdle sample_collaborators (sample_receiver True 1000 True 7 5 0 3 [7]) 1051
       = Some CongestionAck
   \<and> \<not> fst (rtt_RTT sample_collaborators
              (receiverRoundtripEstimator (sample_receiver True 1000 True 7 5 0 3 [7])) 1050)
         <s 1050 - lastWrite (sample_receiver True 1000 True 7 5 0 3 [7])
   \<and> OnIdle sample_collaborators (sample_receiver True 1000 True 7 5 0 3 [7]) 1050 = None
   \<and> \<not> dataSinceAck (sample_receiver True 1000 False 7 5 0 3 [7])
   \<and> OnIdle sample_collaborators (sample_receiver True 1000 False 7 5 0 3 [7]) 1051 = None"
  using OnIdle_feedback [of "sample_receiver True 1000 True 7 5 0 3 [7]"
          sample_collaborators 1051]
        OnIdle_feedback [of "sample_receiver True 1000 True 7 5 0 3 [7]"
          sample_collaborators 1050]
        OnIdle_feedback [of "sample_receiver True 1000 False 7 5 0 3 [7]"
          sample_collaborators 1051]
  by (simp add: sample_defs word_sless_alt)

section \<open>The greatest sequence number received\<close>

text \<open>
  C6. On an open receiver, \<open>gsr\<close> after \<open>OnRead\<close> is at least \<open>gsr\<close> before it, in the
  signed order of \<open>int64\<close>; \<open>gsr\<close> and \<open>gsrTimestamp\<close> become the packet's \<open>SeqNo\<close>
  and \<open>Time\<close> when \<open>ff.SeqNo > gsr\<close> in that linear order, and both stay as they are
  otherwise, whatever the packet's type. The receiver stays open, so \<open>gsr\<close> does not
  decrease over two calls in sequence either.
\<close>

theorem OnRead_gsr_monotone:
  assumes "open r"
  shows "gsr r \<le>s gsr (fst (OnRead d r ff))
       \<and> (gsr r <s ff_SeqNo ff
          \<longrightarrow> gsr (fst (OnRead d r ff)) = ff_SeqNo ff
              \<and> gsrTimestamp (fst (OnRead d r ff)) = ff_Time ff)
       \<and> (\<not> gsr r <s ff_SeqNo ff
          \<longrightarrow> gsr (fst (OnRead d r ff)) = gsr r
              \<and> gsrTimestamp (fst (OnRead d r ff)) = gsrTimestamp r)
       \<and> open (fst (OnRead d r ff))
       \<and> gsr r \<le>s gsr (fst (OnRead d (fst (OnRead d r ff)) ff'))"
proof -
  let ?r1 = "fst (OnRead d r ff)"
  have step: "gsr x \<le>s gsr (fst (OnRead d x f))" if "open x" for x f
    using that by (simp add: OnRead_gsr word_sle_eq word_sless_alt)
  have o1: "open ?r1" using assms by (simp add: OnRead_frame)
  have "gsr r \<le>s gsr ?r1" using assms by (rule step)
  moreover have "gsr ?r1 \<le>s gsr (fst (OnRead d ?r1 ff'))" using o1 by (rule step)
  ultimately have two: "gsr r \<le>s gsr (fst (OnRead d ?r1 ff'))"
    by (simp add: word_sle_eq)
  from assms o1 two step [OF assms] show ?thesis
    by (simp add: OnRead_gsr)
qed

theorem OnRead_gsr_monotone_witness:
  "open (sample_receiver True 0 True 7 5 0 3 [7])
   \<and> gsr (sample_receiver True 0 True 7 5 0 3 [7]) <s ff_SeqNo (sample_ff Sync 9 0 3000)
   \<and> gsr (fst (OnRead sample_collaborators (sample_receiver True 0 True 7 5 0 3 [7])
                 (sample_ff Sync 9 0 3000))) = 9
   \<and> gsrTimestamp (fst (OnRead sample_collaborators (sample_receiver True 0 True 7 5 0 3 [7])
                 (sample_ff Sync 9 0 3000))) = 3000
   \<and> \<not> gsr (sample_receiver True 0 True 7 5 0 3 [7]) <s ff_SeqNo (sample_ff Data 5 0 3000)
   \<and> gsr (fst (OnRead sample_collaborators (sample_receiver True 0 True 7 5 0 3 [7])
                 (sample_ff Data 5 0 3000))) = 5
   \<and> gsrTimestamp (fst (OnRead sample_collaborators (sample_receiver True 0 True 7 5 0 3 [7])
                 (sample_ff Data 5 0 3000))) = 1000"
  using OnRead_gsr_monotone [of "sample_receiver True 0 True 7 5 0 3 [7]"
          sample_collaborators "sample_ff Sync 9 0 3000"]
        OnRead_gsr_monotone [of "sample_receiver True 0 True 7 5 0 3 [7]"
          sample_collaborators "sample_ff Data 5 0 3000"]
  by (simp add: sample_defs word_sless_alt)

section \<open>The receiver while it is not open\<close>

text \<open>
  C7, as amended. When \<open>open\<close> is false, \<open>OnRead\<close> and \<open>OnIdle\<close> return nil and
  \<open>OnRead\<close> leaves every field as it is (\<open>OnIdle\<close> writes no field); \<open>OnWrite\<close> returns
  no options and leaves every field other than \<open>lastWrite\<close> as it is; \<open>Close\<close> changes
  nothing, and \<open>Open\<close> opens the receiver. \<open>Close\<close> is idempotent on any receiver, and
  \<open>Open\<close> on an open receiver panics.
\<close>

theorem not_open_operations:
  assumes "\<not> open r"
  shows "OnRead d r ff = (r, None, [])
       \<and> OnIdle d r now = None
       \<and> (\<exists>r'. OnWrite d r ph = Inr (r', [], []) \<and> r'\<lparr>lastWrite := lastWrite r\<rparr> = r)
       \<and> Close r = r
       \<and> Close (Close r0) = Close r0
       \<and> \<not> open (Close r0)
       \<and> (\<exists>r'. Open d r = Inr r' \<and> open r'
                \<and> Open d r' = Inl (Panic ''opening an open ccid3 receiver''))"
  using assms
  by (simp add: OnRead_not_open OnIdle_def OnWrite_not_open Close_def Open_def)

theorem not_open_operations_witness:
  "\<not> open (sample_receiver False 0 True 7 5 0 3 [7])
   \<and> OnRead sample_collaborators (sample_receiver False 0 True 7 5 0 3 [7])
        (sample_ff Data 9 4 3000) = (sample_receiver False 0 True 7 5 0 3 [7], None, [])
   \<and> OnIdle sample_collaborators (sample_receiver False 0 True 7 5 0 3 [7]) 3000 = None
   \<and> (\<exists>r'. OnWrite sample_collaborators (sample_receiver False 0 True 7 5 0 3 [7])
              (sample_ph Ack 5 3000) = Inr (r', [], [])
            \<and> r'\<lparr>lastWrite := 0\<rparr> = sample_receiver False 0 True 7 5 0 3 [7])"
  using not_open_operations [where r = "sample_receiver False 0 True 7 5 0 3 [7]"
          and d = sample_collaborators and ff = "sample_ff Data 9 4 3000" and now = 3000
          and ph = "sample_ph Ack 5 3000" and ?r0.0 = "sample_receiver True 0 True 7 5 0 3 [7]"]
  by (simp add: sample_defs)

text \<open>
  The claim C7 as it was stated fails for \<open>OnWrite\<close>: on a receiver that is not open,
  with \<open>lastWrite = 0\<close>, writing a packet at time 3000 leaves \<open>lastWrite = 3000\<close>.
\<close>

theorem not_open_OnWrite_counterexample:
  "\<not> open (sample_receiver False 0 True 7 5 0 3 [7])
   \<and> lastWrite (sample_receiver False 0 True 7 5 0 3 [7]) = 0
   \<and> OnWrite sample_collaborators (sample_receiver False 0 True 7 5 0 3 [7])
        (sample_ph Ack 5 3000) = Inr (sample_receiver False 3000 True 7 5 0 3 [7], [], [])
   \<and> lastWrite (sample_receiver False 3000 True 7 5 0 3 [7]) = 3000
   \<and> sample_receiver False 3000 True 7 5 0 3 [7] \<noteq> sample_receiver False 0 True 7 5 0 3 [7]"
  by (simp add: sample_defs OnWrite_def)

section \<open>Nil entries among the feedback options\<close>

text \<open>
  C10. On an open receiver with \<open>gsr > 0\<close>, \<open>OnWrite\<close> with an Ack or a DataAck returns
  whenever the acknowledgement number is \<open>gsr\<close>, and whatever it returns is a slice of
  length exactly 3 whose entries are the results of \<open>encodeOption\<close> as they come: an
  option whose encoding is nil leaves a nil entry at its place in the slice, and a
  warning in the log.
\<close>

theorem OnWrite_options_not_filtered:
  fixes d :: "('rtt, 'rc, 'lt, 'rr, 'li, 'o) collaborators"
  defines "e0 r ph \<equiv> encodeOption d (ElapsedTimeOption
             (Some (TenMicroFromNano d (max64 0 (ph_Time ph - gsrTimestamp r)))))"
      and "e1 r ph \<equiv> encodeOption d (ReceiveRateOption
             (snd (rc_Flush d (receiverRateCalculator r)
                (fst (rtt_RTT d (receiverRoundtripEstimator r) (ph_Time ph))) (ph_Time ph))))"
      and "e2 r ph \<equiv> encodeOption d (LossIntervalsOption
             (lt_LossIntervalsOption d (receiverLossTracker r) (ph_AckNo ph)))"
  assumes "open r" and "isAckType (ph_Type ph)" and "0 <s gsr r"
  shows "(ph_AckNo ph = gsr r \<longrightarrow> (\<exists>r' opts lg. OnWrite d r ph = Inr (r', opts, lg)))
       \<and> (\<forall>r' opts lg. OnWrite d r ph = Inr (r', opts, lg) \<longrightarrow>
            length opts = 3
            \<and> opts = [e0 r ph, e1 r ph, e2 r ph]
            \<and> (e0 r ph = None \<longrightarrow> opts ! 0 = None
                 \<and> (EventWarn, ''ElapsedTime option encoding == nil'') \<in> set lg)
            \<and> (e1 r ph = None \<longrightarrow> opts ! 1 = None
                 \<and> (EventWarn, ''ReceiveRate option encoding == nil'') \<in> set lg)
            \<and> (e2 r ph = None \<longrightarrow> opts ! 2 = None
                 \<and> (EventWarn, ''LossIntervals option encoding == nil'') \<in> set lg))"
proof (cases "ph_AckNo ph = gsr r")
  case True
  with assms(4-6) show ?thesis
    by (auto simp add: OnWrite_feedback Let_def warnIfNil_def e0_def e1_def e2_def)
next
  case False
  with assms(4-6) show ?thesis
    by (simp add: OnWrite_AckNo_mismatch)
qed

theorem OnWrite_options_not_filtered_witness:
  "open (sample_receiver True 0 True 7 5 0 0 [10, 8])
   \<and> isAckType (ph_Type (sample_ph DataAck 5 3000))
   \<and> 0 <s gsr (sample_receiver True 0 True 7 5 0 0 [10, 8])
   \<and> ph_AckNo (sample_ph DataAck 5 3000) = gsr (sample_receiver True 0 True 7 5 0 0 [10, 8])
   \<and> encodeOption sample_collaborators (ReceiveRateOption
        (snd (rc_Flush sample_collaborators 0 50 3000))) = None
   \<and> OnWrite sample_collaborators (sample_receiver True 0 True 7 5 0 0 [10, 8])
        (sample_ph DataAck 5 3000) =
      Inr (sample_receiver True 3000 False 10 5 0 0 [10, 8]\<lparr>lastAck := 3000\<rparr>,
           [Some (ElapsedTimeOption (Some 0)), None, Some (LossIntervalsOption [10, 8])],
           [(EventWarn, ''ReceiveRate option encoding == nil''),
            (EventInfo, ''Placed 3 receiver opts'')])"
  using OnWrite_options_not_filtered [of "sample_receiver True 0 True 7 5 0 0 [10, 8]"
          "sample_ph DataAck 5 3000" sample_collaborators]
  by (simp add: sample_defs isAckType_def word_sless_alt max64_def OnWrite_def
      makeElapsedTimeOption_def warnIfNil_def)

section \<open>The order of an abort\<close>

lemma abort_closes_channels:
  assumes "abort c = Inr c'"
  shows "closed (readApp c') \<and> closed (writeData c') \<and> closed (writeNonData c')"
  using assms by (auto simp add: conn_defs Let_def split: if_splits)

lemma kill_closes_channels:
  assumes "kill c = Inr c'"
  shows "closed (readApp c') \<and> closed (writeData c') \<and> closed (writeNonData c')"
  using assms by (auto simp add: conn_defs Let_def split: if_splits)

lemma teardownUser_closed_readApp:
  "closed (readApp c) \<Longrightarrow> teardownUser c = Inl (Panic ''close of closed channel'')"
  by (simp add: teardownUser_def close_chan_def andThen_def)

text \<open>
  Were \<open>writeNonData\<close> closed before the Reset is injected, the send would find the
  channel closed.
\<close>

lemma inject_after_teardownWriteLoop:
  "\<not> closed (writeNonData c) \<Longrightarrow>
     andThen (teardownWriteLoop c) (inject h) = Inl (Panic ''send on closed channel'')"
  by (simp add: conn_defs)

text \<open>
  C8. On a connection whose three channels are open, \<open>abort\<close> runs to its end and its
  steps come in this order: take the lock, set the socket state to \<open>CLOSED\<close>, release
  the lock, inject a Reset packet with reset code 2 into \<open>writeNonData\<close>, close
  \<open>readApp\<close>, close \<open>writeData\<close>, and last close \<open>writeNonData\<close>. The Reset is in the
  queue of \<open>writeNonData\<close>, behind what was there before, when the channel is closed.
\<close>

theorem abort_order:
  assumes "\<not> closed (readApp c)" and "\<not> closed (writeData c)"
    and "\<not> closed (writeNonData c)"
  shows "abort c =
           Inr (c\<lparr>locked := False,
                   socket := CLOSED,
                   readApp := (readApp c)\<lparr>closed := True\<rparr>,
                   writeData := (writeData c)\<lparr>closed := True\<rparr>,
                   writeNonData := (writeNonData c)
                     \<lparr>queue := queue (writeNonData c) @ [WriteHeader TypeReset 2],
                      closed := True\<rparr>,
                   history := history c @
                     [EvLock, EvSetState CLOSED, EvUnlock, EvInject (WriteHeader TypeReset 2),
                      EvClose ReadApp, EvClose WriteData, EvClose WriteNonData]\<rparr>)
       \<and> generateReset ResetAborted = WriteHeader TypeReset 2"
  using assms by (simp add: conn_defs Let_def)

theorem abort_order_witness:
  "\<not> closed (readApp fresh_Conn) \<and> \<not> closed (writeData fresh_Conn)
   \<and> \<not> closed (writeNonData fresh_Conn)
   \<and> abort fresh_Conn =
       Inr \<lparr>locked = False, socket = CLOSED,
            readApp = \<lparr>queue = [], closed = True\<rparr>,
            writeData = \<lparr>queue = [], closed = True\<rparr>,
            writeNonData = \<lparr>queue = [WriteHeader TypeReset 2], closed = True\<rparr>,
            history = [EvLock, EvSetState CLOSED, EvUnlock, EvInject (WriteHeader TypeReset 2),
                       EvClose ReadApp, EvClose WriteData, EvClose WriteNonData]\<rparr>"
  using abort_order [of fresh_Conn]
  by (simp add: fresh_Conn_def)

section \<open>A second abort\<close>

text \<open>
  C9 asks that a second \<open>abort\<close> on a connection neither crashes nor closes a channel
  twice. The code does not do that. After a first \<open>abort\<close> of a connection with open
  channels the three channels are closed; the second \<open>abort\<close> panics at the injection of
  the Reset into the closed \<open>writeNonData\<close>, \<open>teardownUser\<close> on that connection
  panics at \<open>close(c.readApp)\<close>, a channel already closed, and so does \<open>kill\<close> after
  \<open>abort\<close> or after \<open>kill\<close>.
\<close>

theorem abort_twice_panics:
  "andThen (abort fresh_Conn) abort = Inl (Panic ''send on closed channel'')
   \<and> andThen (abort fresh_Conn) teardownUser = Inl (Panic ''close of closed channel'')
   \<and> andThen (abort fresh_Conn) kill = Inl (Panic ''close of closed channel'')
   \<and> andThen (kill fresh_Conn) kill = Inl (Panic ''close of closed channel'')"
  by (simp add: conn_defs fresh_Conn_def)

text \<open>The same from any connection: what a first \<open>abort\<close> or \<open>kill\<close> returns, a second cannot end on.\<close>

lemma second_teardown_panics:
  assumes "abort c = Inr c' \<or> kill c = Inr c'"
  shows "(\<exists>e. abort c' = Inl e) \<and> kill c' = Inl (Panic ''close of closed channel'')"
proof -
  from assms have cl: "closed (readApp c') \<and> closed (writeData c') \<and> closed (writeNonData c')"
    using abort_closes_channels kill_closes_channels by blast
  then have "abort c' = Inl (Panic ''send on closed channel'')"
    by (simp add: conn_defs Let_def)
  moreover from cl have "kill c' = Inl (Panic ''close of closed channel'')"
    by (simp add: conn_defs Let_def)
  ultimately show ?thesis by simp
qed


section \<open>Further properties\<close>

text \<open>
  X1. On an open receiver, an \<open>OnWrite\<close> of an Ack or a DataAck that returns leaves
  \<open>dataSinceAck\<close> false, \<open>lastAck\<close> and \<open>lastWrite\<close> at the packet's time, \<open>lastCCVal\<close>
  at the value \<open>latestCCVal\<close> had, and \<open>lastLossEventRateInv\<close> at what the loss tracker
  reported; the receiver stays open and \<open>gsr\<close> is not touched.
\<close>

theorem OnWrite_Ack_side_effects:
  assumes "open r" and "isAckType (ph_Type ph)" and "OnWrite d r ph = Inr (r', opts, lg)"
  shows "\<not> dataSinceAck r' \<and> lastAck r' = ph_Time ph \<and> lastWrite r' = ph_Time ph
       \<and> lastCCVal r' = latestCCVal r
       \<and> lastLossEventRateInv r' = lt_LossEventRateInv d (receiverLossTracker r)
       \<and> open r' \<and> gsr r' = gsr r \<and> gsrTimestamp r' = gsrTimestamp r"
proof (cases "0 <s gsr r")
  case False
  with assms show ?thesis
    by (auto simp add: OnWrite_not_seen)
next
  case True
  show ?thesis
  proof (cases "ph_AckNo ph = gsr r")
    case True
    with \<open>0 <s gsr r\<close> assms show ?thesis
      by (auto simp add: OnWrite_feedback Let_def)
  next
    case False
    with \<open>0 <s gsr r\<close> assms show ?thesis
      by (simp add: OnWrite_AckNo_mismatch)
  qed
qed

theorem OnWrite_Ack_side_effects_witness:
  "open (sample_receiver True 0 True 7 5 0 3 [10, 8])
   \<and> isAckType (ph_Type (sample_ph Ack 5 3000))
   \<and> OnWrite sample_collaborators (sample_receiver True 0 True 7 5 0 3 [10, 8])
        (sample_ph Ack 5 3000) =
      Inr (sample_receiver True 3000 False 10 5 0 0 [10, 8]\<lparr>lastAck := 3000\<rparr>,
           [Some (ElapsedTimeOption (Some 0)), Some (ReceiveRateOption (Some 3)),
            Some (LossIntervalsOption [10, 8])],
           [(EventInfo, ''Placed 3 receiver opts'')])
   \<and> \<not> dataSinceAck (sample_receiver True 3000 False 10 5 0 0 [10, 8]\<lparr>lastAck := 3000\<rparr>)
   \<and> lastAck (sample_receiver True 3000 False 10 5 0 0 [10, 8]\<lparr>lastAck := 3000\<rparr>) = 3000"
proof -
  have run: "OnWrite sample_collaborators (sample_receiver True 0 True 7 5 0 3 [10, 8])
        (sample_ph Ack 5 3000) =
      Inr (sample_receiver True 3000 False 10 5 0 0 [10, 8]\<lparr>lastAck := 3000\<rparr>,
           [Some (ElapsedTimeOption (Some 0)), Some (ReceiveRateOption (Some 3)),
            Some (LossIntervalsOption [10, 8])],
           [(EventInfo, ''Placed 3 receiver opts'')])"
    by (simp add: sample_defs isAckType_def word_sless_alt max64_def OnWrite_def
        makeElapsedTimeOption_def warnIfNil_def)
  have o: "open (sample_receiver True 0 True 7 5 0 3 [10, 8])"
    by (simp add: sample_defs)
  have a: "isAckType (ph_Type (sample_ph Ack 5 3000))"
    by (simp add: sample_defs isAckType_def)
  from OnWrite_Ack_side_effects [OF o a run] o a run show ?thesis
    by simp
qed

text \<open>
  X2. On a connection whose three channels are open, \<open>kill\<close> runs to its end and does
  what \<open>abort\<close> does but for the Reset: lock, state \<open>CLOSED\<close>, unlock, close
  \<open>readApp\<close>, close \<open>writeData\<close>, close \<open>writeNonData\<close>; nothing is put into
  \<open>writeNonData\<close>.
\<close>

theorem kill_order:
  assumes "\<not> closed (readApp c)" and "\<not> closed (writeData c)"
    and "\<not> closed (writeNonData c)"
  shows "kill c =
           Inr (c\<lparr>locked := False,
                   socket := CLOSED,
                   readApp := (readApp c)\<lparr>closed := True\<rparr>,
                   writeData := (writeData c)\<lparr>closed := True\<rparr>,
                   writeNonData := (writeNonData c)\<lparr>closed := True\<rparr>,
                   history := history c @
                     [EvLock, EvSetState CLOSED, EvUnlock,
                      EvClose ReadApp, EvClose WriteData, EvClose WriteNonData]\<rparr>)"
  using assms by (simp add: conn_defs Let_def)

theorem kill_order_witness:
  "\<not> closed (readApp fresh_Conn) \<and> \<not> closed (writeData fresh_Conn)
   \<and> \<not> closed (writeNonData fresh_Conn)
   \<and> kill fresh_Conn =
       Inr \<lparr>locked = False, socket = CLOSED,
            readApp = \<lparr>queue = [], closed = True\<rparr>,
            writeData = \<lparr>queue = [], closed = True\<rparr>,
            writeNonData = \<lparr>queue = [], closed = True\<rparr>,
            history = [EvLock, EvSetState CLOSED, EvUnlock,
                       EvClose ReadApp, EvClose WriteData, EvClose WriteNonData]\<rparr>"
  using kill_order [of fresh_Conn]
  by (simp add: fresh_Conn_def)


end
